theory Spec2Isabelle
  imports Complex_Main "HOL-Library.AList" "HOL-Library.Sublist"
begin

section \<open>The HTTP layer the client talks through\<close>

text \<open>
  The program reaches the cloud only through \<^verbatim>\<open>requests.get\<close>, \<^verbatim>\<open>requests.put\<close> and
  \<^verbatim>\<open>requests.delete\<close>. A request is recorded with the arguments the source passes:
  the URL string and the header dictionary, or, for the upload of the bytes, the
  pre-signed \<^verbatim>\<open>href\<close> and the path of the local file opened for reading.
\<close>

type_synonym header_list = "(string \<times> string) list"

datatype request =
    GET string header_list
  | PUT string header_list
  | PUT_files string string
  | DELETE string header_list

text \<open>
  Of a response the source reads \<^verbatim>\<open>status_code\<close> and calls \<^verbatim>\<open>response.json()\<close>, which
  raises when the body is not JSON (an HTML error page of a gateway, an empty body):
  \<open>json\<close> is \<open>None\<close> for such a body. Of the decoded body it reads
  \<^verbatim>\<open>.get('message')\<close> (absent: Python's \<^verbatim>\<open>None\<close>), \<^verbatim>\<open>['href']\<close> and
  \<^verbatim>\<open>["_embedded"]["items"]\<close>, both of which raise \<^verbatim>\<open>KeyError\<close> when absent. Each item
  is the pair of its \<^verbatim>\<open>name\<close>, taken to be present and a string as in every listing of
  the service, and of its \<^verbatim>\<open>modified\<close> field: the instant the ISO-8601
  text denotes, as the POSIX timestamp that \<^verbatim>\<open>dt.fromisoformat(...).timestamp()\<close>
  returns, or \<open>None\<close> when the field is absent or not in that format, where
  \<^verbatim>\<open>fromisoformat\<close> raises. Timestamps are only compared and tested for zero, both
  exact on floats, so they are modelled as reals.
\<close>

record body =
  message :: "string option"
  href :: "string option"
  items :: "(string \<times> real option) list option"

record response =
  status_code :: int
  json :: "body option"

text \<open>
  Modelled from the spec: the module \<^verbatim>\<open>cloud_exceptions\<close> is not among the sources; it
  declares \<^verbatim>\<open>TokenException\<close> (the spec's AuthError) and \<^verbatim>\<open>CloudException\<close> (the spec's
  StoreError, carrying a message). \<open>ConnectionError\<close> is the one of \<^verbatim>\<open>requests\<close>;
  \<open>OtherException\<close> stands for any exception outside these three classes: the decoding
  error of \<^verbatim>\<open>response.json()\<close>, a \<^verbatim>\<open>KeyError\<close>, the \<^verbatim>\<open>OSError\<close> of \<^verbatim>\<open>open\<close>, the error of
  \<^verbatim>\<open>fromisoformat\<close>, a timeout of the transport.
\<close>

datatype error =
    ConnectionError
  | TokenException
  | CloudException "string option"
  | OtherException

text \<open>
  The network is a parameter: a function from a request and the state of the outside
  world to a response (or a raised exception) and the next state of the world.
  Every operation returns its result, the world afterwards and the requests it sent,
  in order. The local file system is a second parameter where a file is opened:
  \<open>can_open p\<close> says that \<^verbatim>\<open>open(p, "rb")\<close> succeeds (it does not for a subdirectory, or
  for a file that has vanished or may not be read).
\<close>

type_synonym 'w http = "request \<Rightarrow> 'w \<Rightarrow> (error + response) \<times> 'w"

type_synonym ('w, 'a) io = "'w \<Rightarrow> (error + 'a) \<times> 'w \<times> request list"

section \<open>yandex\_cloud.py: class YandexCloud\<close>

record YandexCloud =
  name_folder_cloud :: string
  headers :: header_list

definition url :: string where
  "url = ''https://cloud-api.yandex.net/v1/disk/resources''"

definition YandexCloud_init :: "string \<Rightarrow> string \<Rightarrow> YandexCloud" where
  "YandexCloud_init token folder =
     \<lparr>name_folder_cloud = folder,
      headers = [(''Content-type'', ''application/json''),
                 (''Accept'', ''application/json''),
                 (''Authorization'', ''OAuth '' @ token)]\<rparr>"

text \<open>An f-string renders \<^verbatim>\<open>None\<close> as the text \<^verbatim>\<open>None\<close>.\<close>

definition str_of :: "string option \<Rightarrow> string" where
  "str_of m = (case m of None \<Rightarrow> ''None'' | Some s \<Rightarrow> s)"

text \<open>The Cyrillic literals of the messages, as their UTF-8 bytes.\<close>

definition msg_file :: string where
  "msg_file = [CHR 0xD0, CHR 0xA4, CHR 0xD0, CHR 0xB0, CHR 0xD0, CHR 0xB9, CHR 0xD0, CHR 0xBB,
               CHR 0x3A, CHR 0x20]"

definition msg_error :: string where
  "msg_error = [CHR 0xD0, CHR 0x9E, CHR 0xD1, CHR 0x88, CHR 0xD0, CHR 0xB8, CHR 0xD0, CHR 0xB1,
                CHR 0xD0, CHR 0xBA, CHR 0xD0, CHR 0xB0, CHR 0x3A, CHR 0x20]"

definition file_error_message :: "string \<Rightarrow> string option \<Rightarrow> string" where
  "file_error_message file_name m = msg_file @ file_name @ '', '' @ msg_error @ str_of m"

text \<open>
  \<^verbatim>\<open>__save\<close>: ask for a destination; on 200 decode the body, open the file, read
  \<^verbatim>\<open>data['href']\<close> and PUT the file there, dropping the response; on any other status
  raise \<^verbatim>\<open>CloudException\<close> with the message of the decoded body.
\<close>

definition save ::
  "'w http \<Rightarrow> (string \<Rightarrow> bool) \<Rightarrow> YandexCloud \<Rightarrow> string \<Rightarrow> string \<Rightarrow> string \<Rightarrow> ('w, unit) io" where
  "save http can_open self u path file_name w =
     (case http (GET u (headers self)) w of
        (Inl e, w1) \<Rightarrow> (Inl e, w1, [GET u (headers self)])
      | (Inr response, w1) \<Rightarrow>
          if status_code response = 200 then
            (case json response of
               None \<Rightarrow> (Inl OtherException, w1, [GET u (headers self)])
             | Some data \<Rightarrow>
                 if \<not> can_open (path @ ''/'' @ file_name) then
                   (Inl OtherException, w1, [GET u (headers self)])
                 else
                   (case href data of
                      None \<Rightarrow> (Inl OtherException, w1, [GET u (headers self)])
                    | Some h \<Rightarrow>
                        (case http (PUT_files h (path @ ''/'' @ file_name)) w1 of
                           (Inl e, w2) \<Rightarrow>
                             (Inl e, w2,
                              [GET u (headers self), PUT_files h (path @ ''/'' @ file_name)])
                         | (Inr _, w2) \<Rightarrow>
                             (Inr (), w2,
                              [GET u (headers self), PUT_files h (path @ ''/'' @ file_name)]))))
          else
            (case json response of
               None \<Rightarrow> (Inl OtherException, w1, [GET u (headers self)])
             | Some data \<Rightarrow>
                 (Inl (CloudException (Some (file_error_message file_name (message data)))), w1,
                  [GET u (headers self)])))"

definition upload_url :: "YandexCloud \<Rightarrow> string \<Rightarrow> string \<Rightarrow> string" where
  "upload_url self file_name overwrite =
     url @ ''/upload?path='' @ name_folder_cloud self @ ''/'' @ file_name
         @ ''&overwrite='' @ overwrite"

definition load ::
  "'w http \<Rightarrow> (string \<Rightarrow> bool) \<Rightarrow> YandexCloud \<Rightarrow> string \<Rightarrow> string \<Rightarrow> ('w, unit) io" where
  "load http can_open self path file_name =
     save http can_open self (upload_url self file_name ''False'') path file_name"

definition reload ::
  "'w http \<Rightarrow> (string \<Rightarrow> bool) \<Rightarrow> YandexCloud \<Rightarrow> string \<Rightarrow> string \<Rightarrow> ('w, unit) io" where
  "reload http can_open self path file_name =
     save http can_open self (upload_url self file_name ''True'') path file_name"

definition delete_url :: "YandexCloud \<Rightarrow> string \<Rightarrow> string" where
  "delete_url self filename =
     url @ ''?path='' @ name_folder_cloud self @ ''/'' @ filename
         @ ''&force_async=False&permanently=False''"

definition delete :: "'w http \<Rightarrow> YandexCloud \<Rightarrow> string \<Rightarrow> ('w, unit) io" where
  "delete http self filename w =
     (case http (DELETE (delete_url self filename) (headers self)) w of
        (Inl e, w1) \<Rightarrow> (Inl e, w1, [DELETE (delete_url self filename) (headers self)])
      | (Inr response, w1) \<Rightarrow>
          if status_code response \<noteq> 204 then
            (case json response of
               None \<Rightarrow> (Inl OtherException, w1, [DELETE (delete_url self filename) (headers self)])
             | Some data \<Rightarrow>
                 (Inl (CloudException (Some (file_error_message filename (message data)))), w1,
                  [DELETE (delete_url self filename) (headers self)]))
          else (Inr (), w1, [DELETE (delete_url self filename) (headers self)]))"

definition info_url :: "YandexCloud \<Rightarrow> string" where
  "info_url self = url @ ''?path='' @ name_folder_cloud self @ ''&fields=items&limit=10000''"

text \<open>
  The dictionary \<^verbatim>\<open>files\<close> is an association list in insertion order: assigning to a key
  that is present replaces its value in place, as a Python \<^verbatim>\<open>dict\<close> does. The loop over
  the items stops with the exception of \<^verbatim>\<open>fromisoformat\<close> at the first item whose
  \<^verbatim>\<open>modified\<close> field it cannot read.
\<close>

fun for_items :: "(string \<times> real option) list \<Rightarrow> (string \<times> real) list \<Rightarrow> (string \<times> real) list option" where
  "for_items [] files = Some files"
| "for_items ((name, modified) # rest) files =
     (case modified of
        None \<Rightarrow> None
      | Some timestamp \<Rightarrow> for_items rest (AList.update name timestamp files))"

definition get_info :: "'w http \<Rightarrow> YandexCloud \<Rightarrow> ('w, (string \<times> real) list) io" where
  "get_info http self w =
     (case http (GET (info_url self) (headers self)) w of
        (Inl e, w1) \<Rightarrow> (Inl e, w1, [GET (info_url self) (headers self)])
      | (Inr response, w1) \<Rightarrow>
          if status_code response = 200 then
            (case json response of
               None \<Rightarrow> (Inl OtherException, w1, [GET (info_url self) (headers self)])
             | Some data \<Rightarrow>
                 (case items data of
                    None \<Rightarrow> (Inl OtherException, w1, [GET (info_url self) (headers self)])
                  | Some its \<Rightarrow>
                      (case for_items its [] of
                         None \<Rightarrow> (Inl OtherException, w1, [GET (info_url self) (headers self)])
                       | Some files \<Rightarrow> (Inr files, w1, [GET (info_url self) (headers self)]))))
          else if status_code response = 401 then
            (Inl TokenException, w1, [GET (info_url self) (headers self)])
          else
            (case json response of
               None \<Rightarrow> (Inl OtherException, w1, [GET (info_url self) (headers self)])
             | Some data \<Rightarrow>
                 (Inl (CloudException (message data)), w1, [GET (info_url self) (headers self)])))"





section \<open>main.py\<close>

text \<open>
  The truth value Python gives to \<^verbatim>\<open>file_cloud: float | None\<close>: \<^verbatim>\<open>None\<close> is false, and so
  is the float \<^verbatim>\<open>0.0\<close>.
\<close>

definition truthy :: "real option \<Rightarrow> bool" where
  "truthy file_cloud = (case file_cloud of None \<Rightarrow> False | Some t \<Rightarrow> t \<noteq> 0)"

text \<open>
  The loop over \<^verbatim>\<open>os.listdir(path_on_pc)\<close>. The directory is given as the list of its
  entries in enumeration order, each with the value \<^verbatim>\<open>os.path.getmtime\<close> returns for it.
  An entry may be a subdirectory: it is listed and has a modification time, and only
  \<^verbatim>\<open>open\<close> fails on it. The loop carries the dictionary \<^verbatim>\<open>files_cloud\<close> and the two
  counters.
\<close>

fun for_listdir ::
  "'w http \<Rightarrow> (string \<Rightarrow> bool) \<Rightarrow> string \<Rightarrow> YandexCloud \<Rightarrow> (string \<times> real) list \<Rightarrow> (string \<times> real) list \<Rightarrow>
   nat \<Rightarrow> nat \<Rightarrow> ('w, (string \<times> real) list \<times> nat \<times> nat) io" where
  "for_listdir http can_open path_on_pc cloud [] files_cloud download_files rewrite_files w =
     (Inr (files_cloud, download_files, rewrite_files), w, [])"
| "for_listdir http can_open path_on_pc cloud ((file, modified) # rest) files_cloud
       download_files rewrite_files w =
     (let file_cloud = (if file \<in> fst ` set files_cloud then map_of files_cloud file else None);
          popped = (if file \<in> fst ` set files_cloud then AList.delete file files_cloud
                    else files_cloud)
      in if \<not> truthy file_cloud then
           (case load http can_open cloud path_on_pc file w of
              (Inl e, w1, t1) \<Rightarrow> (Inl e, w1, t1)
            | (Inr _, w1, t1) \<Rightarrow>
                (case for_listdir http can_open path_on_pc cloud rest popped
                        (download_files + 1) rewrite_files w1 of
                   (r, w2, t2) \<Rightarrow> (r, w2, t1 @ t2)))
         else if truthy file_cloud \<and> (case file_cloud of None \<Rightarrow> False | Some t \<Rightarrow> modified > t) then
           (case reload http can_open cloud path_on_pc file w of
              (Inl e, w1, t1) \<Rightarrow> (Inl e, w1, t1)
            | (Inr _, w1, t1) \<Rightarrow>
                (case for_listdir http can_open path_on_pc cloud rest popped
                        download_files (rewrite_files + 1) w1 of
                   (r, w2, t2) \<Rightarrow> (r, w2, t1 @ t2)))
         else for_listdir http can_open path_on_pc cloud rest popped download_files rewrite_files w)"

text \<open>The loop over \<^verbatim>\<open>files_cloud.keys()\<close>.\<close>

fun for_keys :: "'w http \<Rightarrow> YandexCloud \<Rightarrow> string list \<Rightarrow> nat \<Rightarrow> ('w, nat) io" where
  "for_keys http cloud [] deleted_files w = (Inr deleted_files, w, [])"
| "for_keys http cloud (filename # rest) deleted_files w =
     (case delete http cloud filename w of
        (Inl e, w1, t1) \<Rightarrow> (Inl e, w1, t1)
      | (Inr _, w1, t1) \<Rightarrow>
          (case for_keys http cloud rest (deleted_files + 1) w1 of
             (r, w2, t2) \<Rightarrow> (r, w2, t1 @ t2)))"

text \<open>
  The body of \<^verbatim>\<open>synchronization\<close>, before decoration (Python keeps it as
  \<^verbatim>\<open>synchronization.__wrapped__\<close>). Its value on success is the triple
  (\<^verbatim>\<open>download_files\<close>, \<^verbatim>\<open>rewrite_files\<close>, \<^verbatim>\<open>deleted_files\<close>) that the last
  \<^verbatim>\<open>logger.info\<close> writes.
\<close>

definition synchronization_wrapped ::
  "'w http \<Rightarrow> (string \<Rightarrow> bool) \<Rightarrow> (string \<times> real) list \<Rightarrow> string \<Rightarrow> YandexCloud \<Rightarrow> ('w, nat \<times> nat \<times> nat) io" where
  "synchronization_wrapped http can_open listdir path_on_pc cloud w =
     (case get_info http cloud w of
        (Inl e, w1, t1) \<Rightarrow> (Inl e, w1, t1)
      | (Inr files_cloud, w1, t1) \<Rightarrow>
          (case for_listdir http can_open path_on_pc cloud listdir files_cloud 0 0 w1 of
             (Inl e, w2, t2) \<Rightarrow> (Inl e, w2, t1 @ t2)
           | (Inr (remaining, download_files, rewrite_files), w2, t2) \<Rightarrow>
               (case (if length remaining > 0 then for_keys http cloud (map fst remaining) 0 w2
                      else (Inr 0, w2, [])) of
                  (Inl e, w3, t3) \<Rightarrow> (Inl e, w3, t1 @ t2 @ t3)
                | (Inr deleted_files, w3, t3) \<Rightarrow>
                    (Inr (download_files, rewrite_files, deleted_files), w3, t1 @ t2 @ t3))))"

text \<open>
  \<^verbatim>\<open>exception_decorator\<close>: the wrapper calls the function, drops its value, and turns
  the three exception classes it names into a logged line and a normal return. Any other
  exception leaves the wrapper.
\<close>

definition exception_decorator :: "('w, 'a) io \<Rightarrow> ('w, unit) io" where
  "exception_decorator func w =
     (case func w of
        (Inr _, w1, t) \<Rightarrow> (Inr (), w1, t)
      | (Inl ConnectionError, w1, t) \<Rightarrow> (Inr (), w1, t)
      | (Inl TokenException, w1, t) \<Rightarrow> (Inr (), w1, t)
      | (Inl (CloudException exc), w1, t) \<Rightarrow> (Inr (), w1, t)
      | (Inl OtherException, w1, t) \<Rightarrow> (Inl OtherException, w1, t))"

definition synchronization ::
  "'w http \<Rightarrow> (string \<Rightarrow> bool) \<Rightarrow> (string \<times> real) list \<Rightarrow> string \<Rightarrow> YandexCloud \<Rightarrow> ('w, unit) io" where
  "synchronization http can_open listdir path_on_pc cloud =
     exception_decorator (synchronization_wrapped http can_open listdir path_on_pc cloud)"

text \<open>
  The \<^verbatim>\<open>while True\<close> of \<^verbatim>\<open>main\<close>, cut after finitely many rounds: the list gives, for
  each round still to run, what the directory holds when that round lists it. A round
  that raises ends the loop; a round that returns is followed by the next one.
\<close>

fun main_loop ::
  "'w http \<Rightarrow> (string \<Rightarrow> bool) \<Rightarrow> string \<Rightarrow> YandexCloud \<Rightarrow> (string \<times> real) list list \<Rightarrow>
   ('w, unit) io" where
  "main_loop http can_open path_to_folder_on_pc yandex [] w = (Inr (), w, [])"
| "main_loop http can_open path_to_folder_on_pc yandex (listdir # later) w =
     (case synchronization http can_open listdir path_to_folder_on_pc yandex w of
        (Inl e, w1, t1) \<Rightarrow> (Inl e, w1, t1)
      | (Inr _, w1, t1) \<Rightarrow>
          (case main_loop http can_open path_to_folder_on_pc yandex later w1 of
             (r, w2, t2) \<Rightarrow> (r, w2, t1 @ t2)))"

section \<open>A reference backend\<close>

text \<open>
  Modelled from the spec: the remote service, which is no part of the repository. To
  state what a round leaves in the remote folder, and to run the client on concrete
  inputs, this section gives one backend that answers the six requests of the client
  the way section 6 of the specification lists them: a single folder of named entries
  with a modification time, a token check, a destination request that refuses to
  replace an entry unless asked to overwrite, an upload that stamps the stored entry
  with the time of the backend's clock when the storage accepts it, and a deletion of a
  listed entry. Every answer has a JSON body. The listing returns every entry (the
  paging limit of the request is not modelled).
\<close>

record disk =
  folder_path :: string
  token :: string
  entries :: "(string \<times> real) list option"
  clock :: real
  storage_ok :: bool

fun strip_prefix :: "string \<Rightarrow> string \<Rightarrow> string option" where
  "strip_prefix [] s = Some s"
| "strip_prefix (p # ps) [] = None"
| "strip_prefix (p # ps) (c # cs) = (if p = c then strip_prefix ps cs else None)"

definition strip_suffix :: "string \<Rightarrow> string \<Rightarrow> string option" where
  "strip_suffix suf s = map_option rev (strip_prefix (rev suf) (rev s))"

definition reply :: "int \<Rightarrow> string option \<Rightarrow> response" where
  "reply code msg =
     \<lparr>status_code = code, json = Some \<lparr>message = msg, href = None, items = None\<rparr>\<rparr>"

definition reply_items :: "(string \<times> real) list \<Rightarrow> response" where
  "reply_items es =
     \<lparr>status_code = 200,
      json = Some \<lparr>message = None, href = None,
                   items = Some (map (\<lambda>entry. (fst entry, Some (snd entry))) es)\<rparr>\<rparr>"

definition reply_href :: "string \<Rightarrow> response" where
  "reply_href h =
     \<lparr>status_code = 200, json = Some \<lparr>message = None, href = Some h, items = None\<rparr>\<rparr>"

definition authorized :: "disk \<Rightarrow> header_list \<Rightarrow> bool" where
  "authorized d h = (map_of h ''Authorization'' = Some (''OAuth '' @ token d))"

definition upload_href :: "string \<Rightarrow> string" where
  "upload_href file = ''https://uploader.disk.example/'' @ file"

definition parse_upload :: "disk \<Rightarrow> string \<Rightarrow> (string \<times> bool) option" where
  "parse_upload d u =
     (case strip_prefix (url @ ''/upload?path='' @ folder_path d @ ''/'') u of
        None \<Rightarrow> None
      | Some rest \<Rightarrow>
          (case strip_suffix ''&overwrite=False'' rest of
             Some file \<Rightarrow> Some (file, False)
           | None \<Rightarrow>
               (case strip_suffix ''&overwrite=True'' rest of
                  Some file \<Rightarrow> Some (file, True)
                | None \<Rightarrow> None)))"

definition parse_delete :: "disk \<Rightarrow> string \<Rightarrow> string option" where
  "parse_delete d u =
     (case strip_prefix (url @ ''?path='' @ folder_path d @ ''/'') u of
        None \<Rightarrow> None
      | Some rest \<Rightarrow> strip_suffix ''&force_async=False&permanently=False'' rest)"

fun disk_http :: "disk http" where
  "disk_http (GET u h) d =
     (if \<not> authorized d h then (Inr (reply 401 (Some ''Unauthorized'')), d)
      else if u = url @ ''?path='' @ folder_path d @ ''&fields=items&limit=10000'' then
        (case entries d of
           None \<Rightarrow> (Inr (reply 404 (Some ''Resource not found'')), d)
         | Some es \<Rightarrow> (Inr (reply_items es), d))
      else if u = url @ ''?path='' @ folder_path d @ ''&limit=1'' then
        (case entries d of
           None \<Rightarrow> (Inr (reply 404 (Some ''Resource not found'')), d)
         | Some es \<Rightarrow> (Inr (reply_items (take 1 es)), d))
      else
        (case parse_upload d u of
           None \<Rightarrow> (Inr (reply 404 (Some ''Resource not found'')), d)
         | Some (file, overwrite) \<Rightarrow>
             (case entries d of
                None \<Rightarrow> (Inr (reply 409 (Some ''Parent folder not found'')), d)
              | Some es \<Rightarrow>
                  if file \<in> fst ` set es \<and> \<not> overwrite
                  then (Inr (reply 409 (Some ''Resource already exists'')), d)
                  else (Inr (reply_href (upload_href file)), d))))"
| "disk_http (PUT u h) d =
     (if \<not> authorized d h then (Inr (reply 401 (Some ''Unauthorized'')), d)
      else if u = url @ ''?path='' @ folder_path d then
        (case entries d of
           None \<Rightarrow> (Inr (reply 201 None), d\<lparr>entries := Some []\<rparr>)
         | Some es \<Rightarrow> (Inr (reply 409 (Some ''Resource already exists'')), d))
      else (Inr (reply 404 (Some ''Resource not found'')), d))"
| "disk_http (PUT_files hr path) d =
     (case strip_prefix (upload_href []) hr of
        None \<Rightarrow> (Inr (reply 404 None), d)
      | Some file \<Rightarrow>
          (case entries d of
             None \<Rightarrow> (Inr (reply 409 None), d)
           | Some es \<Rightarrow>
               if storage_ok d
               then (Inr (reply 201 None), d\<lparr>entries := Some (AList.update file (clock d) es)\<rparr>)
               else (Inr (reply 507 None), d)))"
| "disk_http (DELETE u h) d =
     (if \<not> authorized d h then (Inr (reply 401 (Some ''Unauthorized'')), d)
      else
        (case parse_delete d u of
           None \<Rightarrow> (Inr (reply 404 (Some ''Resource not found'')), d)
         | Some file \<Rightarrow>
             (case entries d of
                None \<Rightarrow> (Inr (reply 404 (Some ''Resource not found'')), d)
              | Some es \<Rightarrow>
                  if file \<in> fst ` set es
                  then (Inr (reply 204 None), d\<lparr>entries := Some (AList.delete file es)\<rparr>)
                  else (Inr (reply 404 (Some ''Resource not found'')), d))))"


section \<open>Query strings\<close>




section \<open>The files a round sends\<close>

text \<open>
  The dictionary that the loop of \<^verbatim>\<open>get_info\<close> builds from the entries of a folder, when
  the \<^verbatim>\<open>modified\<close> field of every item can be read.
\<close>

definition files_of_items :: "(string \<times> real) list \<Rightarrow> (string \<times> real) list" where
  "files_of_items es = fold (\<lambda>item files. AList.update (fst item) (snd item) files) es []"


section \<open>Concrete inputs\<close>

text \<open>A client for the folder \<^verbatim>\<open>backup\<close> and a backend that holds it and accepts the token.\<close>

definition example_cloud :: YandexCloud where
  "example_cloud = YandexCloud_init ''tok'' ''backup''"

definition example_disk :: "(string \<times> real) list \<Rightarrow> real \<Rightarrow> bool \<Rightarrow> disk" where
  "example_disk es now ok =
     \<lparr>folder_path = ''backup'', token = ''tok'', entries = Some es, clock = now, storage_ok = ok\<rparr>"


text \<open>A directory in which every entry can be opened, and one in which none can.\<close>

definition every_file :: "string \<Rightarrow> bool" where
  "every_file p = True"

definition no_file :: "string \<Rightarrow> bool" where
  "no_file p = False"



section \<open>The requests a round sends\<close>

lemma delete_trace:
  "snd (snd (delete http cloud f w)) = [DELETE (delete_url cloud f) (headers cloud)]"
  by (simp add: delete_def split: prod.splits sum.splits option.splits)

lemma save_trace_no_DELETE:
  "save http can_open cloud u path f w = (r, w', t) \<Longrightarrow> DELETE u' h' \<notin> set t"
  by (auto simp: save_def split: prod.splits sum.splits if_splits option.splits)

lemma load_trace_no_DELETE:
  "load http can_open cloud path f w = (r, w', t) \<Longrightarrow> DELETE u' h' \<notin> set t"
  unfolding load_def by (rule save_trace_no_DELETE)

lemma reload_trace_no_DELETE:
  "reload http can_open cloud path f w = (r, w', t) \<Longrightarrow> DELETE u' h' \<notin> set t"
  unfolding reload_def by (rule save_trace_no_DELETE)

lemma for_listdir_no_DELETE:
  "for_listdir http can_open path cloud dir fc dl rw w = (res, w', t) \<Longrightarrow> DELETE u' h' \<notin> set t"
proof (induction dir arbitrary: fc dl rw w res w' t)
  case Nil
  then show ?case by auto
next
  case (Cons a dir)
  obtain fname modified where a: "a = (fname, modified)" by (cases a)
  show ?case using Cons.prems Cons.IH unfolding a
    by (auto simp: Let_def split: if_splits prod.splits sum.splits
             dest: load_trace_no_DELETE reload_trace_no_DELETE)
qed

lemma for_listdir_remaining:
  "for_listdir http can_open path cloud dir fc dl rw w = (Inr (rem, dl', rw'), w', t) \<Longrightarrow>
   rem = filter (\<lambda>p. fst p \<notin> fst ` set dir) fc"
proof (induction dir arbitrary: fc dl rw w w' t)
  case Nil
  then show ?case by auto
next
  case (Cons a dir)
  obtain fname modified where a: "a = (fname, modified)" by (cases a)
  have D: "filter (\<lambda>p. fst p \<notin> fst ` set dir) (AList.delete fname fc)
           = filter (\<lambda>p. fst p \<notin> fst ` set (a # dir)) fc"
    unfolding a by (induction fc) (auto simp: AList.delete_eq)
  have N: "fname \<notin> fst ` set fc \<Longrightarrow> filter (\<lambda>p. fst p \<notin> fst ` set dir) fc
           = filter (\<lambda>p. fst p \<notin> fst ` set (a # dir)) fc"
    unfolding a by (induction fc) auto
  show ?case using Cons.prems Cons.IH D N unfolding a
    by (auto simp: Let_def split: if_splits prod.splits sum.splits)
qed

lemma for_keys_trace:
  "for_keys http cloud ks n w = (res, w', t) \<Longrightarrow>
   (\<exists>k. t = map (\<lambda>f. DELETE (delete_url cloud f) (headers cloud)) (take k ks)) \<and>
   (\<forall>m. res = Inr m \<longrightarrow>
      t = map (\<lambda>f. DELETE (delete_url cloud f) (headers cloud)) ks \<and> m = n + length ks)"
proof (induction ks arbitrary: n w res w' t)
  case Nil
  then show ?case by auto
next
  case (Cons f ks)
  obtain r1 w1 t1 where d: "delete http cloud f w = (r1, w1, t1)" by (cases "delete http cloud f w")
  have t1: "t1 = [DELETE (delete_url cloud f) (headers cloud)]"
    using delete_trace[of http cloud f w] d by simp
  show ?case
  proof (cases r1)
    case (Inl e)
    then have "t = t1" "res = Inl e" using Cons.prems d by auto
    then show ?thesis using t1 by (auto intro: exI[of _ 1])
  next
    case (Inr u)
    obtain r2 w2 t2 where k: "for_keys http cloud ks (n + 1) w1 = (r2, w2, t2)"
      by (cases "for_keys http cloud ks (n + 1) w1")
    have eq: "res = r2" "t = t1 @ t2" using Cons.prems d Inr k by auto
    from Cons.IH[OF k] obtain j where
      j: "t2 = map (\<lambda>f. DELETE (delete_url cloud f) (headers cloud)) (take j ks)"
      and full: "\<forall>m. r2 = Inr m \<longrightarrow>
        t2 = map (\<lambda>f. DELETE (delete_url cloud f) (headers cloud)) ks \<and> m = (n + 1) + length ks"
      by blast
    have "t = map (\<lambda>f. DELETE (delete_url cloud f) (headers cloud)) (take (Suc j) (f # ks))"
      using eq t1 j by simp
    then show ?thesis using eq t1 full by (auto simp del: take_Suc_Cons)
  qed
qed

lemma delete_url_inj: "delete_url cloud a = delete_url cloud b \<longleftrightarrow> a = b"
  by (simp add: delete_url_def)

lemma count_list_map_inj:
  "inj f \<Longrightarrow> count_list (map f xs) (f x) = count_list xs x"
  by (induction xs) (auto simp: inj_def)

lemma count_DELETE_map:
  "count_list (map (\<lambda>f. DELETE (delete_url cloud f) (headers cloud)) ks)
     (DELETE (delete_url cloud name) (headers cloud)) = count_list ks name"
  by (induction ks) (auto simp: delete_url_inj)

lemma count_list_distinct: "distinct xs \<Longrightarrow> count_list xs x = (if x \<in> set xs then 1 else 0)"
  by (induction xs) auto

lemma count_list_take_le: "count_list (take k xs) x \<le> count_list xs x"
proof (induction xs arbitrary: k)
  case Nil
  then show ?case by simp
next
  case (Cons a xs)
  then show ?case by (cases k) (auto intro: le_SucI)
qed

lemma count_list_notin: "x \<notin> set xs \<Longrightarrow> count_list xs x = 0"
  by (induction xs) auto



lemma files_of_items_distinct_aux:
  "distinct (map fst acc) \<Longrightarrow>
   distinct (map fst (fold (\<lambda>item files. AList.update (fst item) (snd item) files) its acc))"
  by (induction its arbitrary: acc) (simp_all add: distinct_update)

lemma files_of_items_distinct: "distinct (map fst (files_of_items its))"
  by (simp add: files_of_items_def files_of_items_distinct_aux)




lemma for_items_distinct:
  "distinct (map fst acc) \<Longrightarrow> for_items its acc = Some files \<Longrightarrow> distinct (map fst files)"
proof (induction its arbitrary: acc)
  case Nil
  then show ?case by simp
next
  case (Cons a its)
  obtain n m where a: "a = (n, m)" by (cases a)
  show ?case
  proof (cases m)
    case None
    then show ?thesis using Cons.prems a by simp
  next
    case (Some t)
    have "distinct (map fst (AList.update n t acc))" using Cons.prems(1) by (rule distinct_update)
    moreover have "for_items its (AList.update n t acc) = Some files" using Cons.prems(2) a Some by simp
    ultimately show ?thesis by (rule Cons.IH)
  qed
qed



lemma get_info_trace:
  "get_info http cloud w = (r, w1, t1) \<Longrightarrow> t1 = [GET (info_url cloud) (headers cloud)]"
  by (auto simp: get_info_def split: prod.splits sum.splits if_splits option.splits)

lemma get_info_distinct:
  "get_info http cloud w = (Inr fc, w1, t1) \<Longrightarrow> distinct (map fst fc)"
  using for_items_distinct[of "[]"]
  by (auto simp: get_info_def split: prod.splits sum.splits if_splits option.splits)

lemma sync_trace_cases:
  assumes "synchronization_wrapped http can_open listdir path cloud w = (res, w', tr)"
  shows "(\<exists>e. res = Inl e \<and> (\<forall>u h. DELETE u h \<notin> set tr)) \<or>
         (\<exists>fc w1 t1 t2 t3 k.
            get_info http cloud w = (Inr fc, w1, t1) \<and> tr = t1 @ t2 @ t3 \<and>
            (\<forall>u h. DELETE u h \<notin> set (t1 @ t2)) \<and>
            t3 = map (\<lambda>f. DELETE (delete_url cloud f) (headers cloud))
                   (take k (map fst (filter (\<lambda>p. fst p \<notin> fst ` set listdir) fc))) \<and>
            (\<forall>c. res = Inr c \<longrightarrow>
               t3 = map (\<lambda>f. DELETE (delete_url cloud f) (headers cloud))
                      (map fst (filter (\<lambda>p. fst p \<notin> fst ` set listdir) fc)) \<and>
               snd (snd c) = length (filter (\<lambda>p. fst p \<notin> fst ` set listdir) fc)))"
proof -
  obtain r1 w1 t1 where g: "get_info http cloud w = (r1, w1, t1)"
    by (cases "get_info http cloud w")
  have t1: "t1 = [GET (info_url cloud) (headers cloud)]" using get_info_trace[OF g] .
  show ?thesis
  proof (cases r1)
    case (Inl e)
    then show ?thesis using assms g t1 by (auto simp: synchronization_wrapped_def)
  next
    case (Inr fc)
    obtain r2 w2 t2 where l: "for_listdir http can_open path cloud listdir fc 0 0 w1 = (r2, w2, t2)"
      by (cases "for_listdir http can_open path cloud listdir fc 0 0 w1")
    have nd2: "\<forall>u h. DELETE u h \<notin> set t2" using for_listdir_no_DELETE[OF l] by blast
    show ?thesis
    proof (cases r2)
      case (Inl e)
      then have "res = Inl e" "tr = t1 @ t2"
        using assms g l Inr by (auto simp: synchronization_wrapped_def)
      then show ?thesis using t1 nd2 by auto
    next
      case (Inr x)
      obtain rem dl rw where x: "x = (rem, dl, rw)" by (cases x)
      have rem: "rem = filter (\<lambda>p. fst p \<notin> fst ` set listdir) fc"
        using for_listdir_remaining[of http can_open path cloud listdir fc 0 0 w1 rem dl rw w2 t2] l Inr x
        by simp
      obtain r3 w3 t3 where k:
        "(if length rem > 0 then for_keys http cloud (map fst rem) 0 w2 else (Inr 0, w2, []))
           = (r3, w3, t3)"
        by (cases "if length rem > 0 then for_keys http cloud (map fst rem) 0 w2 else (Inr 0, w2, [])")
      have k': "for_keys http cloud (map fst rem) 0 w2 = (r3, w3, t3)"
        using k by (cases rem) auto
      from for_keys_trace[OF k'] obtain j where
        j: "t3 = map (\<lambda>f. DELETE (delete_url cloud f) (headers cloud)) (take j (map fst rem))"
        and full: "\<forall>m. r3 = Inr m \<longrightarrow>
          t3 = map (\<lambda>f. DELETE (delete_url cloud f) (headers cloud)) (map fst rem) \<and>
          m = 0 + length (map fst rem)"
        by blast
      have tr: "tr = t1 @ t2 @ t3"
        using assms g l \<open>r1 = Inr fc\<close> Inr x k
        by (auto simp: synchronization_wrapped_def split: sum.splits)
      have res: "\<forall>c. res = Inr c \<longrightarrow> (\<exists>m. r3 = Inr m \<and> snd (snd c) = m)"
        using assms g l \<open>r1 = Inr fc\<close> Inr x k
        by (auto simp: synchronization_wrapped_def split: sum.splits)
      have P1: "get_info http cloud w = (Inr fc, w1, t1)" using g \<open>r1 = Inr fc\<close> by simp
      have P3: "\<forall>u h. DELETE u h \<notin> set (t1 @ t2)" using t1 nd2 by simp
      have P4: "t3 = map (\<lambda>f. DELETE (delete_url cloud f) (headers cloud))
                   (take j (map fst (filter (\<lambda>p. fst p \<notin> fst ` set listdir) fc)))"
        using j rem by simp
      have P5: "\<forall>c. res = Inr c \<longrightarrow>
               t3 = map (\<lambda>f. DELETE (delete_url cloud f) (headers cloud))
                      (map fst (filter (\<lambda>p. fst p \<notin> fst ` set listdir) fc)) \<and>
               snd (snd c) = length (filter (\<lambda>p. fst p \<notin> fst ` set listdir) fc)"
      proof (intro allI impI)
        fix c assume "res = Inr c"
        then obtain m where m: "r3 = Inr m" "snd (snd c) = m" using res by blast
        then show "t3 = map (\<lambda>f. DELETE (delete_url cloud f) (headers cloud))
                      (map fst (filter (\<lambda>p. fst p \<notin> fst ` set listdir) fc)) \<and>
               snd (snd c) = length (filter (\<lambda>p. fst p \<notin> fst ` set listdir) fc)"
          using full rem by simp
      qed
      show ?thesis
        apply (rule disjI2)
        apply (rule exI[of _ fc], rule exI[of _ w1], rule exI[of _ t1], rule exI[of _ t2],
               rule exI[of _ t3], rule exI[of _ j])
        apply (intro conjI)
            apply (rule P1)
           apply (rule tr)
          apply (rule P3)
         apply (rule P4)
        apply (rule P5)
        done
    qed
  qed
qed

lemma count_DELETE_none:
  "\<forall>u h. DELETE u h \<notin> set t \<Longrightarrow> count_list t (DELETE u' h') = 0"
  by (simp add: count_list_notin)

lemma remote_only_keys:
  "distinct (map fst fc) \<Longrightarrow>
   distinct (map fst (filter (\<lambda>p. fst p \<notin> S) fc)) \<and>
   set (map fst (filter (\<lambda>p. fst p \<notin> S) fc)) = fst ` set fc - S"
  by (auto simp: distinct_map_filter)

section \<open>Query strings: the last parameters\<close>



section \<open>The reference backend answers the client\<close>

lemma strip_prefix_append: "strip_prefix p (p @ s) = Some s"
  by (induction p) auto

lemma strip_suffix_append: "strip_suffix s (p @ s) = Some p"
  by (simp add: strip_suffix_def strip_prefix_append)

lemma strip_suffix_False_True: "strip_suffix ''&overwrite=False'' (f @ ''&overwrite=True'') = None"
  by (simp add: strip_suffix_def)

lemma parse_upload_False:
  "folder_path d = name_folder_cloud cloud \<Longrightarrow>
   parse_upload d (upload_url cloud f ''False'') = Some (f, False)"
  using strip_prefix_append[of "url @ ''/upload?path='' @ name_folder_cloud cloud @ ''/''" "f @ ''&overwrite=False''"]
        strip_suffix_append[of "''&overwrite=False''" f]
  by (simp add: parse_upload_def upload_url_def)

lemma parse_upload_True:
  "folder_path d = name_folder_cloud cloud \<Longrightarrow>
   parse_upload d (upload_url cloud f ''True'') = Some (f, True)"
  using strip_prefix_append[of "url @ ''/upload?path='' @ name_folder_cloud cloud @ ''/''" "f @ ''&overwrite=True''"]
        strip_suffix_append[of "''&overwrite=True''" f] strip_suffix_False_True[of f]
  by (simp add: parse_upload_def upload_url_def)


lemma upload_url_not_listing:
  "upload_url cloud f ow \<noteq> url @ ''?path='' @ x"
  by (simp add: upload_url_def)


lemma disk_GET_upload:
  "folder_path d = name_folder_cloud cloud \<Longrightarrow> authorized d h \<Longrightarrow> entries d = Some es \<Longrightarrow>
   ow = ''False'' \<or> ow = ''True'' \<Longrightarrow>
   disk_http (GET (upload_url cloud f ow) h) d =
     (if f \<in> fst ` set es \<and> ow = ''False''
      then (Inr (reply 409 (Some ''Resource already exists'')), d)
      else (Inr (reply_href (upload_href f)), d))"
  using upload_url_not_listing[of cloud f ow] parse_upload_False[of d cloud f] parse_upload_True[of d cloud f]
  by auto

lemma disk_PUT_files:
  "entries d = Some es \<Longrightarrow>
   disk_http (PUT_files (upload_href f) p) d =
     (if storage_ok d
      then (Inr (reply 201 None), d\<lparr>entries := Some (AList.update f (clock d) es)\<rparr>)
      else (Inr (reply 507 None), d))"
  using strip_prefix_append[of "upload_href []" f] by (simp add: upload_href_def)






lemma for_listdir_Cons:
  "for_listdir http can_open path cloud ((f, m) # rest) fc dl rw w =
     (if \<not> truthy (map_of fc f) then
        (case load http can_open cloud path f w of
           (Inl e, w1, t1) \<Rightarrow> (Inl e, w1, t1)
         | (Inr _, w1, t1) \<Rightarrow>
             (case for_listdir http can_open path cloud rest (AList.delete f fc) (dl + 1) rw w1 of
                (r, w2, t2) \<Rightarrow> (r, w2, t1 @ t2)))
      else if (case map_of fc f of None \<Rightarrow> False | Some t \<Rightarrow> m > t) then
        (case reload http can_open cloud path f w of
           (Inl e, w1, t1) \<Rightarrow> (Inl e, w1, t1)
         | (Inr _, w1, t1) \<Rightarrow>
             (case for_listdir http can_open path cloud rest (AList.delete f fc) dl (rw + 1) w1 of
                (r, w2, t2) \<Rightarrow> (r, w2, t1 @ t2)))
      else for_listdir http can_open path cloud rest (AList.delete f fc) dl rw w)"
proof (cases "f \<in> fst ` set fc")
  case True
  then show ?thesis by (simp add: Let_def)
next
  case False
  then have n: "map_of fc f = None" by (simp add: map_of_eq_None_iff)
  have d: "AList.delete f fc = fc" using False by (rule delete_id)
  show ?thesis unfolding d using False by (simp add: Let_def truthy_def n)
qed


lemma authorized_entries [simp]: "authorized (d\<lparr>entries := x\<rparr>) h = authorized d h"
  by (simp add: authorized_def)






lemmas example_defs = example_cloud_def example_disk_def YandexCloud_init_def

lemma example_cfg:
  "folder_path (example_disk es now ok) = name_folder_cloud example_cloud"
  "authorized (example_disk es now ok) (headers example_cloud)"
  "entries (example_disk es now ok) = Some es"
  "storage_ok (example_disk es now ok) = ok"
  "clock (example_disk es now ok) = now"
  by (simp_all add: example_defs authorized_def)

lemmas eval_defs =
  example_defs synchronization_wrapped_def get_info_def info_url_def url_def authorized_def
  reply_def reply_items_def reply_href_def every_file_def no_file_def files_of_items_def truthy_def load_def reload_def save_def upload_url_def
  parse_upload_def strip_suffix_def upload_href_def delete_def delete_url_def parse_delete_def




section \<open>A round against the reference backend\<close>

text \<open>
  Two facts about one step of the loop over the directory, for every network. A name
  that the listing holds with the timestamp 0 is handled as if it were absent: the
  truth test of \<^verbatim>\<open>if not file_cloud\<close> takes \<^verbatim>\<open>0.0\<close> for \<^verbatim>\<open>None\<close>, so \<^verbatim>\<open>load\<close> is called and,
  when it returns, \<^verbatim>\<open>download_files\<close> is incremented. A name held with a timestamp that
  is not 0 and not older than the local file is skipped without any request.
\<close>

lemma zero_timestamp_takes_load_path:
  "map_of fc f = Some 0 \<Longrightarrow>
   for_listdir http can_open path cloud ((f, m) # rest) fc dl rw w =
     (case load http can_open cloud path f w of
        (Inl e, w1, t1) \<Rightarrow> (Inl e, w1, t1)
      | (Inr _, w1, t1) \<Rightarrow>
          (case for_listdir http can_open path cloud rest (AList.delete f fc) (dl + 1) rw w1 of
             (r, w2, t2) \<Rightarrow> (r, w2, t1 @ t2)))"
  unfolding for_listdir_Cons by (simp add: truthy_def)




lemma stale_clock_example:
  "synchronization_wrapped disk_http every_file [(''a.txt'', 200)] ''/home/u/docs'' example_cloud
       (example_disk [] 100 True)
     = (Inr (1, 0, 0), example_disk [(''a.txt'', 100)] 100 True,
        [GET (info_url example_cloud) (headers example_cloud),
         GET (upload_url example_cloud ''a.txt'' ''False'') (headers example_cloud),
         PUT_files (upload_href ''a.txt'') ''/home/u/docs/a.txt''])"
  by (simp add: eval_defs)



section \<open>The claims\<close>

subsection \<open>C1: what a completed round leaves in the cloud\<close>




subsection \<open>C2: when the upload without overwrite is taken\<close>

text \<open>
  C2, at the input where the code departs from it. The local directory holds \<^verbatim>\<open>a.txt\<close>
  modified at 100; the listing holds \<^verbatim>\<open>a.txt\<close> with the timestamp 0. The name is present
  remotely, yet the round sends the destination request with \<^verbatim>\<open>overwrite=False\<close>, the
  request of \<^verbatim>\<open>cloud.load\<close>; the reference backend refuses it, since the entry exists.
  For every network, \<open>zero_timestamp_takes_load_path\<close> shows the same step and the
  increment of \<^verbatim>\<open>download_files\<close> when \<^verbatim>\<open>load\<close> returns.
\<close>

theorem zero_timestamp_load_example:
  "synchronization_wrapped disk_http every_file [(''a.txt'', 100)] ''/home/u/docs'' example_cloud
       (example_disk [(''a.txt'', 0)] 1000 True)
     = (Inl (CloudException (Some (file_error_message ''a.txt'' (Some ''Resource already exists'')))),
        example_disk [(''a.txt'', 0)] 1000 True,
        [GET (info_url example_cloud) (headers example_cloud),
         GET (upload_url example_cloud ''a.txt'' ''False'') (headers example_cloud)])"
  by (simp add: eval_defs file_error_message_def)

subsection \<open>C3: equal timestamps\<close>

text \<open>
  C3, at the input where the code departs from it. The local file \<^verbatim>\<open>a.txt\<close> and the
  remote entry \<^verbatim>\<open>a.txt\<close> both carry the timestamp 0. The timestamps are equal, yet the
  round sends the destination request of \<^verbatim>\<open>cloud.load\<close> for the file. For timestamps
  other than 0, \<open>in_step_file_is_skipped\<close> shows that an equal (or newer) remote timestamp
  leads to no request and no increment.
\<close>

theorem equal_zero_timestamps_load_example:
  "synchronization_wrapped disk_http every_file [(''a.txt'', 0)] ''/home/u/docs'' example_cloud
       (example_disk [(''a.txt'', 0)] 1000 True)
     = (Inl (CloudException (Some (file_error_message ''a.txt'' (Some ''Resource already exists'')))),
        example_disk [(''a.txt'', 0)] 1000 True,
        [GET (info_url example_cloud) (headers example_cloud),
         GET (upload_url example_cloud ''a.txt'' ''False'') (headers example_cloud)])"
  by (simp add: eval_defs file_error_message_def)

subsection \<open>C4: deletion of what only the cloud holds\<close>

text \<open>
  C4. In one round, the request that deletes a name is never sent for a name of the local
  directory, and for no name more than once; when the round completes, it is sent exactly
  once for every name of the listing fetched at the start that has no local file, and the
  count of deleted files is the number of such names. Here the listing is the value
  \<^verbatim>\<open>cloud.get_info()\<close> returned, and "invoked for a name" is the DELETE request that
  \<^verbatim>\<open>cloud.delete\<close> sends first for that name.
\<close>

theorem delete_exactly_remote_only:
  assumes "synchronization_wrapped http can_open listdir path cloud w = (res, w', tr)"
  shows "(\<forall>name \<in> fst ` set listdir.
            count_list tr (DELETE (delete_url cloud name) (headers cloud)) = 0)
       \<and> (\<forall>name. count_list tr (DELETE (delete_url cloud name) (headers cloud)) \<le> 1)
       \<and> (\<forall>c files_cloud w1 t1.
            res = Inr c \<and> get_info http cloud w = (Inr files_cloud, w1, t1) \<longrightarrow>
            (\<forall>name \<in> fst ` set files_cloud - fst ` set listdir.
               count_list tr (DELETE (delete_url cloud name) (headers cloud)) = 1)
            \<and> snd (snd c) = card (fst ` set files_cloud - fst ` set listdir))"
proof -
  let ?D = "\<lambda>f. DELETE (delete_url cloud f) (headers cloud)"
  from sync_trace_cases[OF assms] show ?thesis
  proof (elim disjE exE conjE)
    fix e
    assume "res = Inl e" and nd: "\<forall>u h. DELETE u h \<notin> set tr"
    then show ?thesis using count_DELETE_none[OF nd] by simp
  next
    fix fc w1 t1 t2 t3 k
    assume g: "get_info http cloud w = (Inr fc, w1, t1)"
      and tr: "tr = t1 @ t2 @ t3"
      and nd: "\<forall>u h. DELETE u h \<notin> set (t1 @ t2)"
      and t3: "t3 = map ?D (take k (map fst (filter (\<lambda>p. fst p \<notin> fst ` set listdir) fc)))"
      and full: "\<forall>c. res = Inr c \<longrightarrow>
               t3 = map ?D (map fst (filter (\<lambda>p. fst p \<notin> fst ` set listdir) fc)) \<and>
               snd (snd c) = length (filter (\<lambda>p. fst p \<notin> fst ` set listdir) fc)"
    let ?ks = "map fst (filter (\<lambda>p. fst p \<notin> fst ` set listdir) fc)"
    have dk: "distinct ?ks" and sk: "set ?ks = fst ` set fc - fst ` set listdir"
      using remote_only_keys[OF get_info_distinct[OF g], of "fst ` set listdir"] by blast+
    have cnt: "\<And>name. count_list tr (?D name) = count_list t3 (?D name)"
      using tr count_DELETE_none[OF nd] by (simp del: set_append)
    have c3: "\<And>name. count_list t3 (?D name) = count_list (take k ?ks) name"
      unfolding t3 by (rule count_DELETE_map)
    have le: "\<And>name. count_list (take k ?ks) name \<le> (if name \<in> set ?ks then 1 else 0)"
    proof -
      fix name
      have "count_list (take k ?ks) name \<le> count_list ?ks name" by (rule count_list_take_le)
      also have "\<dots> = (if name \<in> set ?ks then 1 else 0)" by (rule count_list_distinct[OF dk])
      finally show "count_list (take k ?ks) name \<le> (if name \<in> set ?ks then 1 else 0)" .
    qed
    have A: "\<forall>name \<in> fst ` set listdir. count_list tr (?D name) = 0"
    proof
      fix name assume "name \<in> fst ` set listdir"
      then have "name \<notin> set ?ks" using sk by blast
      then show "count_list tr (?D name) = 0" using le[of name] cnt c3 by simp
    qed
    have B: "\<forall>name. count_list tr (?D name) \<le> 1"
    proof
      fix name
      have "count_list (take k ?ks) name \<le> 1" using le[of name] by (simp split: if_splits)
      then show "count_list tr (?D name) \<le> 1" using cnt c3 by simp
    qed
    have C: "\<forall>c files_cloud w1 t1.
            res = Inr c \<and> get_info http cloud w = (Inr files_cloud, w1, t1) \<longrightarrow>
            (\<forall>name \<in> fst ` set files_cloud - fst ` set listdir. count_list tr (?D name) = 1)
            \<and> snd (snd c) = card (fst ` set files_cloud - fst ` set listdir)"
    proof (intro allI impI, elim conjE)
      fix c files_cloud w1' t1'
      assume r: "res = Inr c" and g': "get_info http cloud w = (Inr files_cloud, w1', t1')"
      have fc: "files_cloud = fc" using g g' by simp
      have t3f: "t3 = map ?D ?ks" and n: "snd (snd c) = length (filter (\<lambda>p. fst p \<notin> fst ` set listdir) fc)"
        using full r by blast+
      have one: "\<forall>name \<in> fst ` set files_cloud - fst ` set listdir. count_list tr (?D name) = 1"
      proof
        fix name assume "name \<in> fst ` set files_cloud - fst ` set listdir"
        then have "name \<in> set ?ks" using sk fc by blast
        moreover have "count_list t3 (?D name) = count_list ?ks name"
          unfolding t3f by (rule count_DELETE_map)
        ultimately show "count_list tr (?D name) = 1" using cnt count_list_distinct[OF dk] by simp
      qed
      have "length (filter (\<lambda>p. fst p \<notin> fst ` set listdir) fc) = length ?ks" by simp
      also have "\<dots> = card (set ?ks)" using distinct_card[OF dk] by simp
      finally have "snd (snd c) = card (fst ` set files_cloud - fst ` set listdir)"
        using n sk fc by simp
      then show "(\<forall>name \<in> fst ` set files_cloud - fst ` set listdir. count_list tr (?D name) = 1)
            \<and> snd (snd c) = card (fst ` set files_cloud - fst ` set listdir)"
        using one by blast
    qed
    show ?thesis using A B C by blast
  qed
qed

theorem delete_exactly_remote_only_witness:
  "synchronization_wrapped disk_http every_file [(''a.txt'', 100)] ''/home/u/docs'' example_cloud
       (example_disk [(''a.txt'', 100), (''b.txt'', 50)] 1000 True)
     = (Inr (0, 0, 1), example_disk [(''a.txt'', 100)] 1000 True,
        [GET (info_url example_cloud) (headers example_cloud),
         DELETE (delete_url example_cloud ''b.txt'') (headers example_cloud)])
   \<and> count_list [GET (info_url example_cloud) (headers example_cloud),
                  DELETE (delete_url example_cloud ''b.txt'') (headers example_cloud)]
        (DELETE (delete_url example_cloud ''b.txt'') (headers example_cloud)) = 1
   \<and> count_list [GET (info_url example_cloud) (headers example_cloud),
                  DELETE (delete_url example_cloud ''b.txt'') (headers example_cloud)]
        (DELETE (delete_url example_cloud ''a.txt'') (headers example_cloud)) = 0"
proof -
  let ?d = "example_disk [(''a.txt'', 100), (''b.txt'', 50)] 1000 True"
  let ?tr = "[GET (info_url example_cloud) (headers example_cloud),
              DELETE (delete_url example_cloud ''b.txt'') (headers example_cloud)]"
  have run: "synchronization_wrapped disk_http every_file [(''a.txt'', 100)] ''/home/u/docs'' example_cloud ?d
     = (Inr (0, 0, 1), example_disk [(''a.txt'', 100)] 1000 True, ?tr)"
    by (simp add: eval_defs)
  have g: "get_info disk_http example_cloud ?d
     = (Inr [(''a.txt'', 100), (''b.txt'', 50)], ?d, [GET (info_url example_cloud) (headers example_cloud)])"
    by (simp add: eval_defs)
  note T = delete_exactly_remote_only[OF run]
  have local: "count_list ?tr (DELETE (delete_url example_cloud ''a.txt'') (headers example_cloud)) = 0"
    using T by simp
  have remote: "count_list ?tr (DELETE (delete_url example_cloud ''b.txt'') (headers example_cloud)) = 1"
  proof -
    have "\<forall>name \<in> fst ` set [(''a.txt'', 100::real), (''b.txt'', 50)] - fst ` set [(''a.txt'', 100::real)].
            count_list ?tr (DELETE (delete_url example_cloud name) (headers example_cloud)) = 1"
      using T g by blast
    then show ?thesis by simp
  qed
  show ?thesis using run local remote by blast
qed

subsection \<open>C5: a second round\<close>




subsection \<open>C6: the listing and its failures\<close>




subsection \<open>C7: a refused token\<close>

text \<open>
  C7. When the listing request of a round is answered with status 401, the body of
  \<^verbatim>\<open>synchronization\<close> raises \<^verbatim>\<open>TokenException\<close> having sent that one request and nothing
  else (no upload, no overwrite, no deletion), and the loop of \<^verbatim>\<open>main\<close> goes on with the
  next round from the state the request left.
\<close>

theorem token_failure_aborts_round:
  assumes "http (GET (info_url cloud) (headers cloud)) w = (Inr r, w1)"
      and "status_code r = 401"
  shows "synchronization_wrapped http can_open listdir path cloud w
           = (Inl TokenException, w1, [GET (info_url cloud) (headers cloud)])
       \<and> main_loop http can_open path cloud (listdir # later) w
           = (case main_loop http can_open path cloud later w1 of
                (res, w2, t2) \<Rightarrow> (res, w2, GET (info_url cloud) (headers cloud) # t2))"
proof -
  have g: "get_info http cloud w = (Inl TokenException, w1, [GET (info_url cloud) (headers cloud)])"
    using assms by (simp add: get_info_def)
  have s: "synchronization_wrapped http can_open listdir path cloud w
           = (Inl TokenException, w1, [GET (info_url cloud) (headers cloud)])"
    using g by (simp add: synchronization_wrapped_def)
  have d: "synchronization http can_open listdir path cloud w
           = (Inr (), w1, [GET (info_url cloud) (headers cloud)])"
    using s by (simp add: synchronization_def exception_decorator_def)
  show ?thesis using s d by (simp split: prod.splits)
qed

theorem token_failure_aborts_round_witness:
  "status_code (reply 401 (Some ''Unauthorized'')) = 401
   \<and> synchronization_wrapped disk_http every_file [(''a.txt'', 100)] ''/home/u/docs''
        (YandexCloud_init ''expired'' ''backup'') (example_disk [] 1000 True)
     = (Inl TokenException, example_disk [] 1000 True,
        [GET (info_url (YandexCloud_init ''expired'' ''backup''))
             (headers (YandexCloud_init ''expired'' ''backup''))])
   \<and> main_loop disk_http every_file ''/home/u/docs'' (YandexCloud_init ''expired'' ''backup'')
        [[(''a.txt'', 100)], [(''a.txt'', 100)]] (example_disk [] 1000 True)
     = (Inr (), example_disk [] 1000 True,
        [GET (info_url (YandexCloud_init ''expired'' ''backup''))
             (headers (YandexCloud_init ''expired'' ''backup'')),
         GET (info_url (YandexCloud_init ''expired'' ''backup''))
             (headers (YandexCloud_init ''expired'' ''backup''))])"
proof -
  let ?c = "YandexCloud_init ''expired'' ''backup''"
  let ?d = "example_disk [] 1000 True"
  have h: "disk_http (GET (info_url ?c) (headers ?c)) ?d = (Inr (reply 401 (Some ''Unauthorized'')), ?d)"
    by (simp add: eval_defs)
  have s: "status_code (reply 401 (Some ''Unauthorized'')) = 401" by (simp add: reply_def)
  note T1 = token_failure_aborts_round[where http = disk_http and cloud = ?c and w = ?d
      and r = "reply 401 (Some ''Unauthorized'')" and ?w1.0 = ?d
      and listdir = "[(''a.txt'', 100)]" and path = "''/home/u/docs''"
      and later = "[[(''a.txt'', 100)]]", OF h s]
  note T2 = token_failure_aborts_round[where http = disk_http and cloud = ?c and w = ?d
      and r = "reply 401 (Some ''Unauthorized'')" and ?w1.0 = ?d
      and listdir = "[(''a.txt'', 100)]" and path = "''/home/u/docs''"
      and later = "[]", OF h s]
  show ?thesis using s T1 T2 by simp
qed

subsection \<open>C8: making sure the folder exists\<close>




subsection \<open>C9: deletion\<close>




subsection \<open>C10: the answer to the upload of the bytes is not read\<close>

text \<open>
  C10 as stated fails: after a destination request answered with status 200, \<^verbatim>\<open>__save\<close>
  can still raise. For a directory entry \<^verbatim>\<open>photos\<close> that \<^verbatim>\<open>open\<close> cannot read, the
  destination request is answered 200 and \<^verbatim>\<open>__save\<close> raises without sending the PUT.
\<close>

theorem save_unreadable_entry_counterexample:
  "disk_http (GET (upload_url example_cloud ''photos'' ''False'') (headers example_cloud))
       (example_disk [] 1000 True)
     = (Inr (reply_href (upload_href ''photos'')), example_disk [] 1000 True)
   \<and> status_code (reply_href (upload_href ''photos'')) = 200
   \<and> save disk_http no_file example_cloud (upload_url example_cloud ''photos'' ''False'')
        ''/home/u/docs'' ''photos'' (example_disk [] 1000 True)
     = (Inl OtherException, example_disk [] 1000 True,
        [GET (upload_url example_cloud ''photos'' ''False'') (headers example_cloud)])"
  by (simp add: eval_defs)

text \<open>
  C10, amended. The status of the answer to the PUT of the bytes is never read. After a
  destination request answered with status 200: when the body is JSON and carries
  \<^verbatim>\<open>href\<close>, the local file can be opened and the PUT is answered, \<^verbatim>\<open>__save\<close> returns
  normally, whatever the status of that answer; when the transport raises during the
  PUT, that exception leaves \<^verbatim>\<open>__save\<close>; and when the body is not JSON, or the file
  cannot be opened, or \<^verbatim>\<open>href\<close> is missing, \<^verbatim>\<open>__save\<close> raises without sending the PUT.
  \<^verbatim>\<open>load\<close> and \<^verbatim>\<open>reload\<close> are \<^verbatim>\<open>__save\<close> at their two URLs.
\<close>

theorem save_ignores_put_status:
  assumes "http (GET u (headers self)) w = (Inr r, w1)"
      and "status_code r = 200"
  shows "(\<forall>data h r' w2.
            json r = Some data \<and> can_open (path @ ''/'' @ file_name) \<and> href data = Some h \<and>
            http (PUT_files h (path @ ''/'' @ file_name)) w1 = (Inr r', w2) \<longrightarrow>
            save http can_open self u path file_name w
              = (Inr (), w2, [GET u (headers self), PUT_files h (path @ ''/'' @ file_name)]))
       \<and> (\<forall>data h e w2.
            json r = Some data \<and> can_open (path @ ''/'' @ file_name) \<and> href data = Some h \<and>
            http (PUT_files h (path @ ''/'' @ file_name)) w1 = (Inl e, w2) \<longrightarrow>
            save http can_open self u path file_name w
              = (Inl e, w2, [GET u (headers self), PUT_files h (path @ ''/'' @ file_name)]))
       \<and> (json r = None \<or> \<not> can_open (path @ ''/'' @ file_name) \<or>
            (\<exists>data. json r = Some data \<and> href data = None) \<longrightarrow>
            save http can_open self u path file_name w
              = (Inl OtherException, w1, [GET u (headers self)]))"
  using assms by (auto simp: save_def split: option.splits)

theorem save_ignores_put_status_witness:
  "status_code (reply 507 None) \<noteq> 201
   \<and> disk_http (PUT_files (upload_href ''a.txt'') (''/home/u/docs'' @ ''/'' @ ''a.txt''))
        (example_disk [] 1000 False) = (Inr (reply 507 None), example_disk [] 1000 False)
   \<and> save disk_http every_file example_cloud (upload_url example_cloud ''a.txt'' ''False'')
        ''/home/u/docs'' ''a.txt'' (example_disk [] 1000 False)
     = (Inr (), example_disk [] 1000 False,
        [GET (upload_url example_cloud ''a.txt'' ''False'') (headers example_cloud),
         PUT_files (upload_href ''a.txt'') (''/home/u/docs'' @ ''/'' @ ''a.txt'')])"
proof -
  let ?d = "example_disk [] 1000 False"
  let ?r = "reply_href (upload_href ''a.txt'')"
  have g: "disk_http (GET (upload_url example_cloud ''a.txt'' ''False'') (headers example_cloud)) ?d
             = (Inr ?r, ?d)"
    using disk_GET_upload[where d = ?d and cloud = example_cloud and h = "headers example_cloud"
        and es = "[]" and ow = "''False''" and f = "''a.txt''"]
    by (simp add: example_cfg del: disk_http.simps)
  have s: "status_code ?r = 200" by (simp add: reply_href_def)
  have j: "json ?r = Some \<lparr>message = None, href = Some (upload_href ''a.txt''), items = None\<rparr>"
    by (simp add: reply_href_def)
  have o: "every_file (''/home/u/docs'' @ ''/'' @ ''a.txt'')" by (simp add: every_file_def)
  have p: "disk_http (PUT_files (upload_href ''a.txt'') (''/home/u/docs'' @ ''/'' @ ''a.txt'')) ?d
             = (Inr (reply 507 None), ?d)"
    using disk_PUT_files[where d = ?d and es = "[]" and f = "''a.txt''"
        and p = "''/home/u/docs'' @ ''/'' @ ''a.txt''"]
    by (simp add: example_cfg del: disk_http.simps)
  note T = save_ignores_put_status[where http = disk_http and can_open = every_file
        and self = example_cloud and u = "upload_url example_cloud ''a.txt'' ''False''"
        and w = ?d and r = ?r and ?w1.0 = ?d and path = "''/home/u/docs''"
        and file_name = "''a.txt''", OF g s]
  have "save disk_http every_file example_cloud (upload_url example_cloud ''a.txt'' ''False'')
        ''/home/u/docs'' ''a.txt'' ?d
     = (Inr (), ?d,
        [GET (upload_url example_cloud ''a.txt'' ''False'') (headers example_cloud),
         PUT_files (upload_href ''a.txt'') (''/home/u/docs'' @ ''/'' @ ''a.txt'')])"
    using T j o p by (metis body.select_convs(2))
  then show ?thesis using p by (simp add: reply_def del: disk_http.simps)
qed

end
